theory Spec2Isabelle
  imports Complex_Main
begin

section \<open>Python values and exceptions\<close>

text \<open>
  The transport of \<^verbatim>\<open>midi/playback_controller.py\<close> and the dispatch helpers of
  \<^verbatim>\<open>midi/midi_event_utils.py\<close> are embedded as functions on explicit state.
  Python floats are reals, with one property of doubles kept: a quotient too small to
  be represented is zero (\<open>float_div\<close>). \<^verbatim>\<open>time.time()\<close> is an argument of every
  operation that reads the clock. A \<^verbatim>\<open>print\<close> changes no state and is modelled by the
  one thing it can do to the caller: raise while it formats an argument. An operation
  that can let an exception escape returns \<open>py_error + 'a\<close>, where \<open>Inl e\<close> is the
  exception \<open>e\<close> reaching the caller.
\<close>

datatype py_error = AttributeError | ZeroDivisionError | TypeError | ValueError | BackendError



text \<open>
  Converting an int to text raises \<open>ValueError\<close> when it has more than 4300 decimal
  digits (the interpreter's default limit), that is, from \<open>10 ^ 4300\<close> on.
\<close>

definition int_str_limit :: int where
  "int_str_limit = 10 ^ 4300"

definition fmt_int :: "int \<Rightarrow> py_error option" where
  "fmt_int i = (if int_str_limit \<le> \<bar>i\<bar> then Some ValueError else None)"


text \<open>
  An f-string formats its fields from left to right; the first one that raises ends
  it. \<open>log_raise\<close> is \<^verbatim>\<open>if log: print(f"...")\<close>.
\<close>

fun first_raise :: "py_error option list \<Rightarrow> py_error option" where
  "first_raise [] = None"
| "first_raise (None # rs) = first_raise rs"
| "first_raise (Some e # rs) = Some e"


text \<open>Python's \<^verbatim>\<open>a / b\<close> on floats raises on a zero divisor.\<close>

definition py_truediv :: "real \<Rightarrow> real \<Rightarrow> py_error + real" where
  "py_truediv a b = (if b = 0 then Inl ZeroDivisionError else Inr (a / b))"

text \<open>
  The smallest positive double is \<open>1 / 2 ^ 1074\<close> (written \<^verbatim>\<open>5e-324\<close>). Rounding to nearest,
  a division yields \<open>0.0\<close> exactly when its true quotient is at most half of that in
  magnitude. \<open>float_div\<close> keeps this and no other rounding.
\<close>

definition min_subnormal :: real where
  "min_subnormal = 1 / 2 ^ 1074"

definition float_div :: "real \<Rightarrow> real \<Rightarrow> real" where
  "float_div a b = (if \<bar>a / b\<bar> \<le> min_subnormal / 2 then 0 else a / b)"

section \<open>The synthesis backend\<close>

text \<open>
  The raw synthesizer (\<^verbatim>\<open>fluidsynth.Synth\<close>) and a raw \<^verbatim>\<open>pygame.midi.Output\<close> are
  external. A backend is the list of messages it has accepted, together with an
  arbitrary rule saying which call raises, given what was accepted so far.
\<close>

datatype midi_msg =
    FsNoteOn int int int
  | FsNoteOff int int
  | FsCC int int int
  | FsProgramSelect int int int int
  | PgNoteOn int int int
  | PgNoteOff int int int
  | PgWriteShort int int int

record backend =
  delivered :: "midi_msg list"
  rejects :: "midi_msg list \<Rightarrow> midi_msg \<Rightarrow> bool"

definition backend_call :: "midi_msg \<Rightarrow> backend \<Rightarrow> py_error + backend" where
  "backend_call m b =
     (if rejects b (delivered b) m then Inl BackendError
      else Inr (b\<lparr>delivered := delivered b @ [m]\<rparr>))"

subsection \<open>FluidSynthPlayer (\<^verbatim>\<open>midi/fluidsynth_player.py\<close>)\<close>

text \<open>
  \<open>fs = None\<close> is a player whose synthesizer failed to initialise; \<open>obj_id\<close> is the
  identity of the Python object (the scheduler keeps a reference to the player).
\<close>

record player =
  obj_id :: nat
  fs :: "backend option"
  sfid :: int



definition program_change :: "int \<Rightarrow> int \<Rightarrow> player \<Rightarrow> player" where
  "program_change chan program p =
     (case fs p of
        None \<Rightarrow> p
      | Some b \<Rightarrow>
          if sfid p = - 1 then p
          else
            (case backend_call (FsProgramSelect chan (sfid p) 0 program) b of
               Inl e \<Rightarrow> p
             | Inr b' \<Rightarrow> p\<lparr>fs := Some b'\<rparr>))"

section \<open>Dispatch helpers (\<^verbatim>\<open>midi/midi_event_utils.py\<close>)\<close>

text \<open>
  The first argument of the helpers is \<open>None\<close>, a \<open>FluidSynthPlayer\<close>, a
  \<^verbatim>\<open>pygame.midi.Output\<close>, or an object of any other type, which is characterised by
  what its truth test does: it yields a truth value or raises.
\<close>

datatype target = TNone | TPlayer player | TPygame backend | TOther "py_error + bool"

fun truth :: "target \<Rightarrow> py_error + bool" where
  "truth TNone = Inr False"
| "truth (TPlayer p) = Inr True"
| "truth (TPygame b) = Inr True"
| "truth (TOther t) = t"

text \<open>
  The body of a \<^verbatim>\<open>try\<close> block yields the state it reached and the exception that
  ended it, if any. \<^verbatim>\<open>except Exception as e: print(...)\<close> runs only after an
  exception; \<open>handler\<close> is what its \<^verbatim>\<open>print\<close> raises, if anything, and that reaches the
  caller. Exceptions themselves are taken to print.
\<close>

definition try_except :: "'s \<times> py_error option \<Rightarrow> py_error option \<Rightarrow> py_error + 's" where
  "try_except body handler =
     (case body of
        (s, None) \<Rightarrow> Inr s
      | (s, Some e) \<Rightarrow> (case handler of None \<Rightarrow> Inr s | Some e' \<Rightarrow> Inl e'))"





text \<open>
  \<^verbatim>\<open>for channel in range(16)\<close>: one controller-change 123 per channel; the first call
  that raises ends the loop, and what was sent before stays sent.
\<close>

fun cc_loop :: "(int \<Rightarrow> midi_msg) \<Rightarrow> int list \<Rightarrow> backend \<Rightarrow> backend \<times> py_error option" where
  "cc_loop mk [] b = (b, None)"
| "cc_loop mk (c # cs) b =
     (case backend_call (mk c) b of
        Inl e \<Rightarrow> (b, Some e)
      | Inr b' \<Rightarrow> cc_loop mk cs b')"

definition send_all_notes_off_body :: "target \<Rightarrow> target \<times> py_error option" where
  "send_all_notes_off_body dev =
     (case dev of
        TPlayer p \<Rightarrow>
          (case fs p of
             Some b \<Rightarrow>
               (case cc_loop (\<lambda>c. FsCC c 123 0) (map int [0..<16]) b of
                  (b', raised) \<Rightarrow> (TPlayer (p\<lparr>fs := Some b'\<rparr>), raised))
           | None \<Rightarrow> (dev, None))
      | TPygame b \<Rightarrow>
          (case cc_loop (\<lambda>c. PgWriteShort (176 + c) 123 0) (map int [0..<16]) b of
             (b', raised) \<Rightarrow> (TPygame b', raised))
      | TNone \<Rightarrow> (dev, None)
      | TOther t \<Rightarrow> (dev, None))"

text \<open>
  The log lines of \<^verbatim>\<open>send_all_notes_off\<close> and its handler format no argument of the
  caller (only fixed text, the type of the target and the exception), so
  \<open>log_events\<close> decides nothing; the truth test stands outside the \<^verbatim>\<open>try\<close>.
\<close>

definition send_all_notes_off :: "target \<Rightarrow> bool \<Rightarrow> py_error + target" where
  "send_all_notes_off dev log_events =
     (case truth dev of
        Inl e \<Rightarrow> Inl e
      | Inr t \<Rightarrow>
          if \<not> t then Inr dev
          else try_except (send_all_notes_off_body dev) None)"

section \<open>Notes and the note scheduler\<close>

text \<open>
  A note as the specification describes it (the source takes \<^verbatim>\<open>pretty_midi.Note\<close>
  objects from the application).
\<close>

record midi_note =
  pitch :: int
  velocity :: int
  start_time :: real
  end_time :: real
  channel :: int

text \<open>
  The scheduler's cursor: the indices of the notes already started and of the notes
  sounding now. \<open>midi_output_target\<close> is a reference to the player object;
  \<open>thread_running\<close> says whether the background loop is alive.
\<close>

record scheduler =
  sched_notes :: "midi_note list"
  midi_output_target :: nat
  started :: "nat set"
  active :: "nat set"
  thread_running :: bool

text \<open>What the loop sends for a note, tagged with the note's index in the list.\<close>

datatype dispatch = DNoteOn int int int | DNoteOff int int

definition on_event :: "midi_note list \<Rightarrow> nat \<Rightarrow> nat \<times> dispatch" where
  "on_event ns i = (i, DNoteOn (channel (ns ! i)) (pitch (ns ! i)) (velocity (ns ! i)))"

definition off_event :: "midi_note list \<Rightarrow> nat \<Rightarrow> nat \<times> dispatch" where
  "off_event ns i = (i, DNoteOff (channel (ns ! i)) (pitch (ns ! i)))"

text \<open>
  Modelled from the spec: the constructor of \<open>NoteScheduler\<close>
  (\<^verbatim>\<open>midi/note_scheduler.py\<close> is not among the sources). A new scheduler has the
  note list and the target it is given, an empty cursor and no thread.
\<close>

definition new_scheduler :: "midi_note list \<Rightarrow> nat \<Rightarrow> scheduler" where
  "new_scheduler ns tgt =
     \<lparr>sched_notes = ns, midi_output_target = tgt, started = {}, active = {},
      thread_running = False\<rparr>"

text \<open>
  Modelled from the spec: \<open>NoteScheduler.update_notes\<close> replaces the list the loop
  iterates.
\<close>

definition update_notes :: "midi_note list \<Rightarrow> scheduler \<Rightarrow> scheduler" where
  "update_notes ns s = s\<lparr>sched_notes := ns\<rparr>"

text \<open>
  Modelled from the spec: \<open>NoteScheduler.reset_playback_position\<close> clears all
  started/active bookkeeping, so that every note's window is evaluated afresh.
\<close>

definition reset_playback_position :: "real \<Rightarrow> scheduler \<Rightarrow> scheduler" where
  "reset_playback_position pos s = s\<lparr>started := {}, active := {}\<rparr>"

text \<open>
  Modelled from the spec: \<open>NoteScheduler.start_playback_thread\<close> brings the
  background loop to life.
\<close>

definition start_playback_thread :: "scheduler \<Rightarrow> scheduler" where
  "start_playback_thread s = s\<lparr>thread_running := True\<rparr>"

text \<open>
  Modelled from the spec: one wake of the scheduler loop at virtual position \<open>pos\<close>.
  Every note not yet started with \<open>start_time \<le> pos < end_time\<close> gets a note-on and
  is marked started and active; then every active note with \<open>end_time \<le> pos\<close> gets a
  note-off and is marked inactive.
\<close>

definition due_on :: "real \<Rightarrow> scheduler \<Rightarrow> nat list" where
  "due_on pos s =
     filter (\<lambda>i. i \<notin> started s \<and> start_time (sched_notes s ! i) \<le> pos
                 \<and> pos < end_time (sched_notes s ! i))
       [0..<length (sched_notes s)]"

definition due_off :: "real \<Rightarrow> scheduler \<Rightarrow> nat list" where
  "due_off pos s =
     filter (\<lambda>i. i \<in> active s \<and> end_time (sched_notes s ! i) \<le> pos)
       [0..<length (sched_notes s)]"

definition poll :: "real \<Rightarrow> scheduler \<Rightarrow> (nat \<times> dispatch) list \<times> scheduler" where
  "poll pos s =
     (let ons = due_on pos s;
          s1 = s\<lparr>started := started s \<union> set ons, active := active s \<union> set ons\<rparr>;
          offs = due_off pos s1;
          s2 = s1\<lparr>active := active s1 - set offs\<rparr>
      in (map (on_event (sched_notes s)) ons @ map (off_event (sched_notes s)) offs, s2))"

section \<open>The playback controller (\<^verbatim>\<open>midi/playback_controller.py\<close>)\<close>

text \<open>
  The attributes \<open>__init__\<close> assigns. \<open>stop_flag\<close> is the \<^verbatim>\<open>threading.Event\<close>,
  \<open>is_playing_for_scheduler\<close> the one-element list shared with the scheduler;
  \<open>log_events\<close> is constantly \<open>True\<close> and only guards printing; the attribute
  \<open>notes\<close> is written \<open>notes'\<close>.
\<close>

record controller =
  fluidsynth_player :: "player option"
  notes' :: "midi_note list"
  is_playing_internal :: bool
  paused :: bool
  current_playback_time_sec :: real
  playback_start_real_time :: real
  pause_start_time_sec :: real
  tempo_bpm :: real
  tempo_scale_factor :: real
  stop_flag :: bool
  is_playing_for_scheduler :: bool
  note_scheduler :: "scheduler option"

definition INSTRUMENT_MAPPINGS :: "(string \<times> int) list" where
  "INSTRUMENT_MAPPINGS =
     [(''EZ Pluck'', 0), (''Synth Lead'', 80), (''Warm Pad'', 89), (''Classic Piano'', 1)]"

text \<open>\<^verbatim>\<open>send_all_notes_off(self.fluidsynth_player, ...)\<close>, as the player it leaves.\<close>

definition all_notes_off_player :: "player \<Rightarrow> player" where
  "all_notes_off_player p =
     (case send_all_notes_off (TPlayer p) True of
        Inr (TPlayer p') \<Rightarrow> p'
      | _ \<Rightarrow> p)"

text \<open>
  Modelled from the spec: \<open>NoteScheduler.stop_playback_thread(join)\<close> signals the
  loop to stop (the source of \<open>seek\<close> notes that it sets the stop flag), always issues
  a final all-notes-off to its target, and the loop is gone afterwards. The target is
  the player the controller holds when the reference matches.
\<close>

definition stop_playback_thread :: "bool \<Rightarrow> controller \<Rightarrow> controller" where
  "stop_playback_thread join c =
     (case note_scheduler c of
        None \<Rightarrow> c
      | Some s \<Rightarrow>
          (let c1 = c\<lparr>stop_flag := True\<rparr>;
               c2 = (case fluidsynth_player c1 of
                       None \<Rightarrow> c1
                     | Some p \<Rightarrow>
                         if midi_output_target s = obj_id p
                         then c1\<lparr>fluidsynth_player := Some (all_notes_off_player p)\<rparr>
                         else c1)
           in c2\<lparr>note_scheduler := Some (s\<lparr>thread_running := False\<rparr>)\<rparr>))"

text \<open>
  \<open>set_instrument\<close>: the log line after \<open>program_change\<close> stands inside the
  \<^verbatim>\<open>try\<close> and formats \<open>channel\<close> and \<open>program_number\<close>; so does the handler.
\<close>

definition set_instrument :: "int \<Rightarrow> int \<Rightarrow> controller \<Rightarrow> py_error + controller" where
  "set_instrument program_number chan c =
     (case fluidsynth_player c of
        None \<Rightarrow> Inr c
      | Some p \<Rightarrow>
          (case fs p of
             None \<Rightarrow> Inr c
           | Some b \<Rightarrow>
               try_except
                 (c\<lparr>fluidsynth_player := Some (program_change chan program_number p)\<rparr>,
                  first_raise [fmt_int chan, fmt_int program_number])
                 (first_raise [fmt_int chan, fmt_int program_number])))"

text \<open>
  \<open>__init__\<close>. Its argument is what \<^verbatim>\<open>FluidSynthPlayer(SOUNDFONT_PATH)\<close> does: it
  raises or yields a player. A player without a synthesizer is dropped; a working one
  gets the default instrument (\<open>set_instrument\<close> on channel 0, which comes down to
  \<open>program_change\<close> on the player).
\<close>

definition new_controller :: "py_error + player \<Rightarrow> controller" where
  "new_controller made =
     (let fp = (case made of
                  Inl e \<Rightarrow> None
                | Inr p \<Rightarrow>
                    (case fs p of
                       None \<Rightarrow> None
                     | Some b \<Rightarrow>
                         Some (program_change 0
                                 (case map_of INSTRUMENT_MAPPINGS ''EZ Pluck'' of
                                    None \<Rightarrow> 0 | Some n \<Rightarrow> n) p)))
      in \<lparr>fluidsynth_player = fp, notes' = [], is_playing_internal = False, paused = False,
          current_playback_time_sec = 0, playback_start_real_time = 0,
          pause_start_time_sec = 0, tempo_bpm = 120, tempo_scale_factor = 1,
          stop_flag = False, is_playing_for_scheduler = False, note_scheduler = None\<rparr>)"

definition ensure_scheduler :: "controller \<Rightarrow> controller" where
  "ensure_scheduler c =
     (case fluidsynth_player c of
        None \<Rightarrow> c\<lparr>note_scheduler := None\<rparr>
      | Some p \<Rightarrow>
          (case note_scheduler c of
             None \<Rightarrow> c\<lparr>note_scheduler := Some (new_scheduler (notes' c) (obj_id p))\<rparr>
           | Some s \<Rightarrow>
               if midi_output_target s \<noteq> obj_id p
               then (stop_playback_thread True c)
                      \<lparr>note_scheduler := Some (new_scheduler (notes' c) (obj_id p))\<rparr>
               else c\<lparr>note_scheduler := Some (update_notes (notes' c) s)\<rparr>))"

definition get_current_position :: "real \<Rightarrow> controller \<Rightarrow> real \<times> controller" where
  "get_current_position now c =
     (if is_playing_internal c \<and> \<not> paused c then
        (let elapsed_real_time = now - playback_start_real_time c;
             c' = c\<lparr>current_playback_time_sec := elapsed_real_time * tempo_scale_factor c\<rparr>
         in (current_playback_time_sec c', c'))
      else if paused c then (pause_start_time_sec c, c)
      else (current_playback_time_sec c, c))"

definition is_playing :: "controller \<Rightarrow> bool" where
  "is_playing c = (is_playing_internal c \<and> \<not> paused c)"

definition stop :: "controller \<Rightarrow> controller" where
  "stop c =
     (let c1 = c\<lparr>is_playing_internal := False, is_playing_for_scheduler := False,
                 paused := False\<rparr>;
          c2 = (case note_scheduler c1 of
                  Some s \<Rightarrow> stop_playback_thread True c1
                | None \<Rightarrow>
                    (case fluidsynth_player c1 of
                       Some p \<Rightarrow> c1\<lparr>fluidsynth_player := Some (all_notes_off_player p)\<rparr>
                     | None \<Rightarrow> c1));
          c3 = c2\<lparr>current_playback_time_sec := 0, pause_start_time_sec := 0\<rparr>
      in (case note_scheduler c3 of
            Some s \<Rightarrow> c3\<lparr>note_scheduler := Some (reset_playback_position 0 s)\<rparr>
          | None \<Rightarrow> c3))"

text \<open>
  \<open>set_notes\<close> takes a list, as its type hint says (for a list,
  \<^verbatim>\<open>notes if notes else []\<close> is the list itself).
\<close>

definition set_notes :: "midi_note list \<Rightarrow> controller \<Rightarrow> controller" where
  "set_notes ns c =
     (let c1 = (case fluidsynth_player c of
                  Some p \<Rightarrow> stop c
                | None \<Rightarrow>
                    c\<lparr>is_playing_internal := False, is_playing_for_scheduler := False,
                      paused := False\<rparr>);
          c2 = c1\<lparr>notes' := ns, current_playback_time_sec := 0, pause_start_time_sec := 0\<rparr>
      in (case fluidsynth_player c2 of
            None \<Rightarrow> c2
          | Some p \<Rightarrow>
              (case note_scheduler c2 of
                 Some s \<Rightarrow>
                   c2\<lparr>note_scheduler :=
                        Some (reset_playback_position 0 (update_notes (notes' c2) s))\<rparr>
               | None \<Rightarrow> ensure_scheduler c2)))"

definition start_thread :: "controller \<Rightarrow> controller" where
  "start_thread c = c\<lparr>note_scheduler := map_option start_playback_thread (note_scheduler c)\<rparr>"

text \<open>
  In \<open>play\<close>, the test \<^verbatim>\<open>not self.note_scheduler.midi_output_target\<close> is on a player
  object, which is always truthy, so only a missing scheduler ends the call there.
\<close>

definition play :: "real \<Rightarrow> controller \<Rightarrow> py_error + controller" where
  "play now c =
     (case fluidsynth_player c of
        None \<Rightarrow> Inr c
      | Some p \<Rightarrow>
          if notes' c = [] then Inr c
          else
            (let c1 = ensure_scheduler c in
             case note_scheduler c1 of
               None \<Rightarrow> Inr c1
             | Some s \<Rightarrow>
                 if is_playing_internal c1 \<and> \<not> paused c1 then Inr c1
                 else
                   (let c2 = c1\<lparr>stop_flag := False, is_playing_internal := True,
                                is_playing_for_scheduler := True\<rparr>
                    in if paused c2 then
                         (case py_truediv (pause_start_time_sec c2) (tempo_scale_factor c2) of
                            Inl e \<Rightarrow> Inl e
                          | Inr q \<Rightarrow>
                              Inr (start_thread
                                     (c2\<lparr>playback_start_real_time := now - q,
                                         paused := False\<rparr>)))
                       else
                         (case py_truediv (current_playback_time_sec c2)
                                 (tempo_scale_factor c2) of
                            Inl e \<Rightarrow> Inl e
                          | Inr q \<Rightarrow>
                              Inr (start_thread
                                     (c2\<lparr>playback_start_real_time := now - q,
                                         note_scheduler :=
                                           Some (reset_playback_position
                                                   (current_playback_time_sec c2) s)\<rparr>))))))"

text \<open>
  \<open>pause\<close> sets the flags first and reads the position afterwards, through
  \<open>get_current_position\<close>, as the source does.
\<close>

definition pause :: "real \<Rightarrow> controller \<Rightarrow> controller" where
  "pause now c =
     (if is_playing_internal c \<and> \<not> paused c then
        (let c1 = c\<lparr>paused := True, is_playing_internal := False,
                    is_playing_for_scheduler := False\<rparr>
         in case get_current_position now c1 of
              (pos, c2) \<Rightarrow>
                (let c3 = c2\<lparr>pause_start_time_sec := pos\<rparr>
                 in case fluidsynth_player c3 of
                      Some p \<Rightarrow> c3\<lparr>fluidsynth_player := Some (all_notes_off_player p)\<rparr>
                    | None \<Rightarrow> c3))
      else c)"

definition seek :: "real \<Rightarrow> real \<Rightarrow> controller \<Rightarrow> py_error + controller" where
  "seek position_sec now c =
     (case fluidsynth_player c of
        None \<Rightarrow>
          (let c1 = c\<lparr>current_playback_time_sec := max 0 position_sec\<rparr>
           in Inr (c1\<lparr>pause_start_time_sec := current_playback_time_sec c1\<rparr>))
      | Some p \<Rightarrow>
          (let c1 = c\<lparr>fluidsynth_player := Some (all_notes_off_player p)\<rparr>;
               c2 = c1\<lparr>current_playback_time_sec := max 0 position_sec\<rparr>;
               c3 = c2\<lparr>pause_start_time_sec := current_playback_time_sec c2\<rparr>;
               c4 = (case note_scheduler c3 of
                       Some s \<Rightarrow>
                         c3\<lparr>note_scheduler :=
                              Some (reset_playback_position (current_playback_time_sec c3) s)\<rparr>
                     | None \<Rightarrow> c3)
           in case py_truediv (current_playback_time_sec c4) (tempo_scale_factor c4) of
                Inl e \<Rightarrow> Inl e
              | Inr q \<Rightarrow>
                  (let c5 = c4\<lparr>playback_start_real_time := now - q\<rparr>
                   in if is_playing_internal c5 \<and> \<not> paused c5 then
                        (case note_scheduler c5 of
                           Some s \<Rightarrow>
                             Inr (start_thread
                                    ((stop_playback_thread False c5)
                                       \<lparr>stop_flag := False, is_playing_for_scheduler := True\<rparr>))
                         | None \<Rightarrow> Inr c5)
                      else Inr c5)))"

definition toggle_playback :: "real \<Rightarrow> controller \<Rightarrow> py_error + controller" where
  "toggle_playback now c = (if is_playing c then Inr (pause now c) else play now c)"

text \<open>
  \<open>set_tempo\<close> reads the clock twice: \<open>t_read\<close> inside \<open>get_current_position\<close>,
  \<open>t_anchor\<close> when it recomputes the start time. The new scale factor is the double
  \<^verbatim>\<open>self.tempo_bpm / 120.0\<close>, which is \<open>0.0\<close> for a tempo small enough.
\<close>

definition set_tempo :: "real \<Rightarrow> real \<Rightarrow> real \<Rightarrow> controller \<Rightarrow> py_error + controller" where
  "set_tempo bpm t_read t_anchor c =
     (if bpm \<le> 0 then Inr c
      else
        (case get_current_position t_read c of
           (current_pos_before_tempo_change, c1) \<Rightarrow>
             (let c2 = c1\<lparr>tempo_bpm := bpm\<rparr>;
                  c3 = c2\<lparr>tempo_scale_factor := float_div (tempo_bpm c2) 120\<rparr>
              in if is_playing_internal c3 \<or> paused c3 then
                   (case py_truediv current_pos_before_tempo_change (tempo_scale_factor c3) of
                      Inl e \<Rightarrow> Inl e
                    | Inr q \<Rightarrow> Inr (c3\<lparr>playback_start_real_time := t_anchor - q\<rparr>))
                 else Inr c3)))"

text \<open>
  The instance attributes: those \<open>__init__\<close> assigns, and no method adds another.
  Reading any other attribute raises \<open>AttributeError\<close>.
\<close>

definition controller_attributes :: "string list" where
  "controller_attributes =
     [''fluidsynth_player'', ''log_events'', ''notes'', ''_is_playing_internal'', ''paused'',
      ''current_playback_time_sec'', ''playback_start_real_time'', ''pause_start_time_sec'',
      ''tempo_bpm'', ''tempo_scale_factor'', ''stop_flag'', ''_is_playing_for_scheduler'',
      ''note_scheduler'']"

definition getattr_controller :: "string \<Rightarrow> py_error + unit" where
  "getattr_controller name =
     (if name \<in> set controller_attributes then Inr () else Inl AttributeError)"

text \<open>\<open>cleanup\<close>: \<open>self.stop()\<close>, then \<^verbatim>\<open>self.device_manager.close_device()\<close>.\<close>

definition cleanup :: "controller \<Rightarrow> py_error + controller" where
  "cleanup c =
     (let c1 = stop c
      in case getattr_controller ''device_manager'' of
           Inl e \<Rightarrow> Inl e
         | Inr u \<Rightarrow> Inr c1)"

text \<open>
  Modelled from the spec: the background loop of the scheduler, woken at the
  wall-clock instants of the list. It ends when told to stop, idles while the
  controller is not playing, and otherwise reads the position through the controller's
  \<open>get_current_position\<close> and polls.
\<close>

fun scheduler_loop :: "real list \<Rightarrow> controller \<Rightarrow> (nat \<times> dispatch) list \<times> controller" where
  "scheduler_loop [] c = ([], c)"
| "scheduler_loop (t # ts) c =
     (case note_scheduler c of
        None \<Rightarrow> ([], c)
      | Some s \<Rightarrow>
          if stop_flag c \<or> \<not> thread_running s then ([], c)
          else if \<not> is_playing_for_scheduler c then scheduler_loop ts c
          else
            (case get_current_position t c of
               (pos, c1) \<Rightarrow>
                 (case poll pos s of
                    (evs, s') \<Rightarrow>
                      (case scheduler_loop ts (c1\<lparr>note_scheduler := Some s'\<rparr>) of
                         (rest, c2) \<Rightarrow> (evs @ rest, c2)))))"

subsection \<open>Modes, the transport state and the invariant\<close>

datatype mode = Stopped | Playing | Paused

definition mode_of :: "controller \<Rightarrow> mode" where
  "mode_of c =
     (if is_playing_internal c \<and> \<not> paused c then Playing
      else if paused c then Paused
      else Stopped)"

definition transport_state ::
  "controller \<Rightarrow> bool \<times> bool \<times> bool \<times> real \<times> real \<times> real \<times> real \<times> real" where
  "transport_state c =
     (is_playing_internal c, paused c, is_playing_for_scheduler c, tempo_bpm c,
      tempo_scale_factor c, current_playback_time_sec c, playback_start_real_time c,
      pause_start_time_sec c)"

text \<open>
  What every state reached from \<open>new_controller\<close> by operations that return
  satisfies: playing and paused exclude each other, a scheduler exists only next to a
  player and refers to it, and nothing plays without a scheduler. The tempo scale
  factor is not part of it: it is zero after \<open>set_tempo\<close> with a tempo small enough.
\<close>

definition controller_inv :: "controller \<Rightarrow> bool" where
  "controller_inv c =
     (\<not> (is_playing_internal c \<and> paused c) \<and>
      (case note_scheduler c of
         None \<Rightarrow> \<not> is_playing_internal c
       | Some s \<Rightarrow>
           (case fluidsynth_player c of
              None \<Rightarrow> False
            | Some p \<Rightarrow> midi_output_target s = obj_id p)))"

subsection \<open>Sequencing and concrete states\<close>

definition then_do :: "py_error + 'a \<Rightarrow> ('a \<Rightarrow> py_error + 'b) \<Rightarrow> py_error + 'b" where
  "then_do r f = (case r of Inl e \<Rightarrow> Inl e | Inr x \<Rightarrow> f x)"

text \<open>A backend that accepts every call, a working player, and a one-second middle C.\<close>

definition example_backend :: backend where
  "example_backend = \<lparr>delivered = [], rejects = (\<lambda>h m. False)\<rparr>"

definition example_player :: player where
  "example_player = \<lparr>obj_id = 1, fs = Some example_backend, sfid = 1\<rparr>"

definition example_note :: midi_note where
  "example_note = \<lparr>pitch = 60, velocity = 100, start_time = 0, end_time = 1, channel = 0\<rparr>"

text \<open>
  A controller that has been playing \<open>[example_note]\<close> since wall-clock time 100 at
  120 BPM, and the same controller with no notes and no scheduler yet.
\<close>

definition example_playing :: controller where
  "example_playing =
     \<lparr>fluidsynth_player = Some example_player, notes' = [example_note],
      is_playing_internal = True, paused = False, current_playback_time_sec = 0,
      playback_start_real_time = 100, pause_start_time_sec = 0, tempo_bpm = 120,
      tempo_scale_factor = 1, stop_flag = False, is_playing_for_scheduler = True,
      note_scheduler =
        Some \<lparr>sched_notes = [example_note], midi_output_target = 1, started = {},
              active = {}, thread_running = True\<rparr>\<rparr>"

definition example_idle :: controller where
  "example_idle =
     \<lparr>fluidsynth_player = Some example_player, notes' = [],
      is_playing_internal = False, paused = False, current_playback_time_sec = 0,
      playback_start_real_time = 0, pause_start_time_sec = 0, tempo_bpm = 120,
      tempo_scale_factor = 1, stop_flag = False, is_playing_for_scheduler = False,
      note_scheduler = None\<rparr>"

text \<open>A note of six milliseconds, to be played against a ten-millisecond polling grid.\<close>

definition short_note :: midi_note where
  "short_note =
     \<lparr>pitch = 60, velocity = 100, start_time = 12 / 1000, end_time = 18 / 1000, channel = 0\<rparr>"

subsection \<open>The scheduler seen from one note\<close>

text \<open>
  The wakes of the loop at a list of virtual positions, without the controller around
  them, and what a single note goes through over the same positions, given whether it
  is marked started and active. Both serve the proofs only.
\<close>

fun poll_all :: "real list \<Rightarrow> scheduler \<Rightarrow> (nat \<times> dispatch) list" where
  "poll_all [] s = []"
| "poll_all (p # ps) s = (case poll p s of (evs, s') \<Rightarrow> evs @ poll_all ps s')"

fun note_trace :: "midi_note \<Rightarrow> bool \<Rightarrow> bool \<Rightarrow> real list \<Rightarrow> dispatch list" where
  "note_trace n st a [] = []"
| "note_trace n st a (p # ps) =
     (let on = (\<not> st \<and> start_time n \<le> p \<and> p < end_time n);
          a1 = (a \<or> on);
          off = (a1 \<and> end_time n \<le> p)
      in (if on then [DNoteOn (channel n) (pitch n) (velocity n)] else []) @
         (if off then [DNoteOff (channel n) (pitch n)] else []) @
         note_trace n (st \<or> on) (a1 \<and> \<not> off) ps)"

subsection \<open>Sequences of public operations\<close>

text \<open>
  The public operations as values, each carrying its arguments and the clock readings
  it makes, and a run of them from a given state that ends at the first exception.
\<close>

datatype operation =
    SetNotes "midi_note list"
  | Play real
  | Pause real
  | Stop
  | Seek real real
  | SetTempo real real real
  | GetCurrentPosition real
  | TogglePlayback real
  | SetInstrument int int
  | Cleanup

fun apply_operation :: "operation \<Rightarrow> controller \<Rightarrow> py_error + controller" where
  "apply_operation (SetNotes ns) c = Inr (set_notes ns c)"
| "apply_operation (Play now) c = play now c"
| "apply_operation (Pause now) c = Inr (pause now c)"
| "apply_operation Stop c = Inr (stop c)"
| "apply_operation (Seek position_sec now) c = seek position_sec now c"
| "apply_operation (SetTempo bpm t_read t_anchor) c = set_tempo bpm t_read t_anchor c"
| "apply_operation (GetCurrentPosition now) c = Inr (snd (get_current_position now c))"
| "apply_operation (TogglePlayback now) c = toggle_playback now c"
| "apply_operation (SetInstrument program_number chan) c = set_instrument program_number chan c"
| "apply_operation Cleanup c = cleanup c"

fun run_operations :: "operation list \<Rightarrow> controller \<Rightarrow> py_error + controller" where
  "run_operations [] c = Inr c"
| "run_operations (x # xs) c = then_do (apply_operation x c) (run_operations xs)"

section \<open>Properties of the dispatch helpers\<close>









section \<open>Properties of the controller\<close>

lemma then_do_simps [simp]: "then_do (Inl e) f = Inl e" "then_do (Inr x) f = f x"
  by (simp_all add: then_do_def)

lemma all_notes_off_player_eq:
  "all_notes_off_player p =
     (case fs p of
        None \<Rightarrow> p
      | Some b \<Rightarrow> p\<lparr>fs := Some (fst (cc_loop (\<lambda>c. FsCC c 123 0) (map int [0..<16]) b))\<rparr>)"
  by (auto simp add: all_notes_off_player_def send_all_notes_off_def send_all_notes_off_body_def
      try_except_def split: option.splits prod.splits)

lemma obj_id_all_notes_off [simp]: "obj_id (all_notes_off_player p) = obj_id p"
  by (simp add: all_notes_off_player_eq split: option.splits)

subsection \<open>The invariant holds initially and is kept by every operation\<close>

lemma inv_new: "controller_inv (new_controller made)"
  by (simp add: controller_inv_def new_controller_def Let_def)

lemma inv_stop: "controller_inv c \<Longrightarrow> controller_inv (stop c)"
  by (auto simp add: controller_inv_def stop_def stop_playback_thread_def
      reset_playback_position_def Let_def split: option.splits)

lemma inv_set_notes: "controller_inv c \<Longrightarrow> controller_inv (set_notes ns c)"
  by (auto simp add: controller_inv_def set_notes_def ensure_scheduler_def new_scheduler_def
      update_notes_def stop_def stop_playback_thread_def reset_playback_position_def Let_def
      split: option.splits)

lemma inv_pause: "controller_inv c \<Longrightarrow> controller_inv (pause now c)"
  by (auto simp add: controller_inv_def pause_def get_current_position_def Let_def
      split: option.splits)

lemma inv_seek: "controller_inv c \<Longrightarrow> seek t now c = Inr c' \<Longrightarrow> controller_inv c'"
  by (auto simp add: controller_inv_def seek_def start_thread_def start_playback_thread_def
      py_truediv_def stop_playback_thread_def reset_playback_position_def Let_def
      split: option.splits if_splits)

lemma inv_set_tempo:
  "controller_inv c \<Longrightarrow> set_tempo bpm t1 t2 c = Inr c' \<Longrightarrow> controller_inv c'"
  by (auto simp add: controller_inv_def set_tempo_def get_current_position_def
      py_truediv_def Let_def split: option.splits if_splits)

lemma inv_set_instrument:
  "controller_inv c \<Longrightarrow> set_instrument pr ch c = Inr c' \<Longrightarrow> controller_inv c'"
  by (auto simp add: controller_inv_def set_instrument_def try_except_def program_change_def
      split: option.splits if_splits sum.splits)

lemma inv_get_current_position:
  "controller_inv c \<Longrightarrow> controller_inv (snd (get_current_position now c))"
  by (auto simp add: controller_inv_def get_current_position_def Let_def split: option.splits)

lemma inv_ensure_scheduler: "controller_inv c \<Longrightarrow> controller_inv (ensure_scheduler c)"
  by (auto simp add: controller_inv_def ensure_scheduler_def new_scheduler_def update_notes_def
      stop_playback_thread_def Let_def split: option.splits)

lemma inv_play:
  assumes "controller_inv c" and "play now c = Inr c'"
  shows "controller_inv c'"
proof -
  have i1: "controller_inv (ensure_scheduler c)"
    using assms(1) by (rule inv_ensure_scheduler)
  show ?thesis
  proof (cases "fluidsynth_player c = None \<or> notes' c = []")
    case True
    with assms(2) have "c' = c"
      by (auto simp add: play_def split: option.splits)
    with assms(1) show ?thesis by simp
  next
    case False
    then obtain p where p: "fluidsynth_player c = Some p" and n: "notes' c \<noteq> []"
      by auto
    from assms(2) i1 show ?thesis
      by (auto simp add: play_def p n Let_def controller_inv_def start_thread_def
          start_playback_thread_def py_truediv_def reset_playback_position_def
          split: option.splits if_splits)
  qed
qed

lemma inv_toggle_playback:
  "controller_inv c \<Longrightarrow> toggle_playback now c = Inr c' \<Longrightarrow> controller_inv c'"
  by (auto simp add: toggle_playback_def inv_pause inv_play split: if_splits)

lemma inv_example_playing: "controller_inv example_playing"
  by (simp add: controller_inv_def example_playing_def example_player_def)

subsection \<open>Seeking\<close>

lemma seek_returns: "tempo_scale_factor c \<noteq> 0 \<Longrightarrow> \<exists>c'. seek t now c = Inr c'"
  by (simp add: seek_def py_truediv_def Let_def split: option.splits)

lemma seek_fields:
  assumes "controller_inv c" and "seek t now c = Inr c'"
  shows "is_playing_internal c' = is_playing_internal c"
    and "paused c' = paused c"
    and "tempo_scale_factor c' = tempo_scale_factor c"
    and "current_playback_time_sec c' = max 0 t"
    and "pause_start_time_sec c' = max 0 t"
    and "is_playing_internal c \<Longrightarrow>
         playback_start_real_time c' = now - max 0 t / tempo_scale_factor c"
  using assms
  by (auto simp add: controller_inv_def seek_def py_truediv_def Let_def start_thread_def
      stop_playback_thread_def split: option.splits if_splits)

text \<open>
  In a state with a nonzero tempo scale factor, whatever the mode, \<open>seek t\<close> at
  wall-clock time \<open>now\<close> succeeds and keeps the mode, and \<open>get_current_position\<close> at
  the same instant returns \<open>max 0 t\<close>. Read at a \<open>later\<close> instant, the position has
  advanced by the elapsed time scaled by the tempo while Playing, and not at all while
  Paused or Stopped.
\<close>

lemma seek_then_position:
  assumes "controller_inv c" and "tempo_scale_factor c \<noteq> 0"
  shows "\<exists>c'. seek t now c = Inr c' \<and> mode_of c' = mode_of c \<and>
     fst (get_current_position now c') = max 0 t \<and>
     fst (get_current_position later c') =
       max 0 t + (if mode_of c = Playing then (later - now) * tempo_scale_factor c else 0)"
proof -
  from assms(2) obtain c' where r: "seek t now c = Inr c'"
    using seek_returns by blast
  note f = seek_fields [OF assms(1) r]
  have m: "mode_of c' = mode_of c"
    by (simp add: mode_of_def f)
  have "fst (get_current_position later c') =
       max 0 t + (if mode_of c = Playing then (later - now) * tempo_scale_factor c else 0)" for later
    using assms(2) by (simp add: get_current_position_def mode_of_def f Let_def algebra_simps)
  from this [of now] this [of later] r m show ?thesis by simp
qed

lemma min_subnormal_pos: "0 < min_subnormal"
  unfolding min_subnormal_def by (rule divide_pos_pos) simp_all

lemma float_div_underflow: "float_div min_subnormal 120 = 0"
  using min_subnormal_pos by (simp add: float_div_def)

lemma float_div_exact: "min_subnormal / 2 < \<bar>a / b\<bar> \<Longrightarrow> float_div a b = a / b"
  by (simp add: float_div_def)

text \<open>
  Claim C3 fails on the code. A new controller with a working sink is Stopped;
  \<open>set_tempo\<close> with the smallest positive double passes the guard and returns,
  leaving the controller Stopped with a tempo scale factor of zero; \<open>seek 5\<close> then
  divides by that factor, and \<open>ZeroDivisionError\<close> reaches the caller instead of a
  position.
\<close>

theorem seek_raises_after_tiny_tempo:
  "(case set_tempo min_subnormal 101 101 (new_controller (Inr example_player)) of
      Inl e \<Rightarrow> None
    | Inr c \<Rightarrow> Some (mode_of c, tempo_scale_factor c, seek 5 103 c))
   = Some (Stopped, 0, Inl ZeroDivisionError)"
  using min_subnormal_pos
  by (simp add: set_tempo_def get_current_position_def float_div_underflow new_controller_def
      example_player_def mode_of_def seek_def py_truediv_def Let_def)

subsection \<open>Tempo changes\<close>

text \<open>
  For every tempo whose scale factor \<open>bpm / 120\<close> is above half the smallest double,
  and every mode, \<open>set_tempo bpm\<close> succeeds, keeps the mode and sets the scale factor
  to \<open>bpm / 120\<close>. The position read at \<open>t3\<close> afterwards is the position the call
  captured at \<open>t1\<close>, plus, while Playing, the wall-clock time since the call's second
  clock reading \<open>t2\<close> at rate \<open>bpm / 120\<close>. At one instant (\<open>t1 = t2 = t3\<close>) the
  position is unchanged.
\<close>

lemma set_tempo_continuous:
  assumes "60 * min_subnormal < bpm"
  shows "\<exists>c'. set_tempo bpm t1 t2 c = Inr c' \<and> mode_of c' = mode_of c \<and>
     tempo_bpm c' = bpm \<and> tempo_scale_factor c' = bpm / 120 \<and>
     fst (get_current_position t3 c') =
       fst (get_current_position t1 c) +
         (if mode_of c = Playing then (t3 - t2) * (bpm / 120) else 0)"
proof -
  from assms min_subnormal_pos have b: "0 < bpm"
    by simp
  with assms have "min_subnormal / 2 < \<bar>bpm / 120\<bar>"
    by simp
  then have f: "float_div bpm 120 = bpm / 120"
    by (rule float_div_exact)
  from b show ?thesis
    by (auto simp add: set_tempo_def f py_truediv_def mode_of_def Let_def
        get_current_position_def field_simps split: option.splits)
qed

text \<open>
  Claim C5 fails on the code. Two seconds into playback the position is 2;
  \<open>set_tempo\<close> with the smallest positive double passes the guard, the new scale
  factor is zero, and the division that should keep the position raises
  \<open>ZeroDivisionError\<close> to the caller. The same call on a paused controller raises as
  well.
\<close>

theorem set_tempo_raises_on_tiny_tempo:
  "(mode_of example_playing, fst (get_current_position 102 example_playing),
    set_tempo min_subnormal 102 102 example_playing,
    set_tempo min_subnormal 102 102 (pause 102 example_playing))
   = (Playing, 2, Inl ZeroDivisionError, Inl ZeroDivisionError)"
  using min_subnormal_pos
  by (simp add: set_tempo_def get_current_position_def float_div_underflow pause_def
      example_playing_def mode_of_def py_truediv_def Let_def)

text \<open>
  Claim C6. For every \<open>bpm \<le> 0\<close>, \<open>set_tempo bpm\<close> returns normally and leaves the
  whole controller state, and so every transport field, as it was.
\<close>

theorem set_tempo_rejects_nonpositive:
  "bpm \<le> 0 \<Longrightarrow> set_tempo bpm t1 t2 c = Inr c"
  by (simp add: set_tempo_def)

theorem set_tempo_rejects_nonpositive_witness:
  "(- 30::real) \<le> 0 \<and> set_tempo (- 30) 102 102 example_playing = Inr example_playing"
  using set_tempo_rejects_nonpositive [of "- 30" 102 102 example_playing] by simp

subsection \<open>Stopping\<close>

text \<open>
  Claim C7. \<open>stop\<close> is a total function (it raises nothing), and a second \<open>stop\<close>
  changes nothing of the controller but what the output sink has received: the
  transport state (mode flags, position, pause time, tempo, anchor) after two stops is
  the one after a single stop, and so are the note list, the stop flag and the
  scheduler.
\<close>

theorem stop_idempotent:
  "transport_state (stop (stop c)) = transport_state (stop c) \<and>
   stop (stop c) = (stop c)\<lparr>fluidsynth_player := fluidsynth_player (stop (stop c))\<rparr>"
  by (simp add: transport_state_def stop_def stop_playback_thread_def
      reset_playback_position_def Let_def split: option.splits)

subsection \<open>Play as a no-op\<close>

text \<open>
  Claim C8. When the output sink is unavailable or the note list is empty, \<open>play\<close>
  returns the state unchanged. When the controller is already Playing (in a state
  satisfying the invariant), \<open>play\<close> changes no transport field, sends nothing to the
  sink, leaves the stop flag and the thread as they are, and only hands the scheduler
  the current note list again.
\<close>

theorem play_noop:
  assumes "fluidsynth_player c = None \<or> notes' c = [] \<or>
           (mode_of c = Playing \<and> controller_inv c)"
  shows "\<exists>c'. play now c = Inr c' \<and> transport_state c' = transport_state c \<and>
     fluidsynth_player c' = fluidsynth_player c \<and> stop_flag c' = stop_flag c \<and>
     map_option thread_running (note_scheduler c') =
       map_option thread_running (note_scheduler c) \<and>
     (if fluidsynth_player c = None \<or> notes' c = [] then c' = c
      else c' = c\<lparr>note_scheduler := map_option (update_notes (notes' c)) (note_scheduler c)\<rparr>)"
proof (cases "fluidsynth_player c = None \<or> notes' c = []")
  case True
  then have "play now c = Inr c"
    by (auto simp add: play_def split: option.splits)
  with True show ?thesis by simp
next
  case False
  with assms have pl: "mode_of c = Playing" and inv: "controller_inv c"
    by auto
  from False obtain p where p: "fluidsynth_player c = Some p"
    by auto
  from pl have ip: "is_playing_internal c" "\<not> paused c"
    by (auto simp add: mode_of_def split: if_splits)
  from inv ip p obtain s where s: "note_scheduler c = Some s" "midi_output_target s = obj_id p"
    by (auto simp add: controller_inv_def split: option.splits)
  have es: "ensure_scheduler c = c\<lparr>note_scheduler := Some (update_notes (notes' c) s)\<rparr>"
    by (simp add: ensure_scheduler_def p s)
  have "play now c = Inr (c\<lparr>note_scheduler := Some (update_notes (notes' c) s)\<rparr>)"
    using False by (simp add: play_def p es ip Let_def)
  then show ?thesis
    using False s p by (simp add: transport_state_def update_notes_def)
qed

theorem play_noop_witness:
  "play 105 example_playing = Inr example_playing \<and>
   play 105 example_idle = Inr example_idle \<and>
   play 105 (new_controller (Inl BackendError)) = Inr (new_controller (Inl BackendError))"
proof -
  have m: "mode_of example_playing = Playing"
    by (simp add: mode_of_def example_playing_def)
  have a: "fluidsynth_player example_playing = None \<or> notes' example_playing = [] \<or>
           (mode_of example_playing = Playing \<and> controller_inv example_playing)"
    by (simp add: inv_example_playing m)
  have b: "fluidsynth_player example_idle = None \<or> notes' example_idle = [] \<or>
           (mode_of example_idle = Playing \<and> controller_inv example_idle)"
    by (simp add: example_idle_def)
  have c: "fluidsynth_player (new_controller (Inl BackendError)) = None \<or>
           notes' (new_controller (Inl BackendError)) = [] \<or>
           (mode_of (new_controller (Inl BackendError)) = Playing \<and>
            controller_inv (new_controller (Inl BackendError)))"
    by (simp add: new_controller_def)
  have n: "fluidsynth_player (new_controller (Inl BackendError)) = None"
    by (simp add: new_controller_def)
  have e: "example_playing\<lparr>note_scheduler :=
             map_option (update_notes (notes' example_playing)) (note_scheduler example_playing)\<rparr>
           = example_playing"
    by (simp add: example_playing_def update_notes_def)
  have pn: "fluidsynth_player example_playing \<noteq> None" "notes' example_playing \<noteq> []"
    by (simp_all add: example_playing_def)
  have i: "notes' example_idle = []"
    by (simp add: example_idle_def)
  from play_noop [OF a, of 105] have 1: "play 105 example_playing = Inr example_playing"
    by (auto simp add: pn e)
  from play_noop [OF b, of 105] have 2: "play 105 example_idle = Inr example_idle"
    by (auto simp add: i)
  from play_noop [OF c, of 105]
  have 3: "play 105 (new_controller (Inl BackendError)) = Inr (new_controller (Inl BackendError))"
    by (auto simp add: n)
  from 1 2 3 show ?thesis by simp
qed

subsection \<open>Pause and resume\<close>

lemma obj_id_program_change [simp]: "obj_id (program_change ch pr p) = obj_id p"
  by (simp add: program_change_def split: option.splits sum.splits)

lemma obj_id_example_player [simp]: "obj_id example_player = 1"
  by (simp add: example_player_def)

text \<open>
  \<open>pause\<close> never records the position: by the time it calls
  \<open>get_current_position\<close> the controller is already marked paused, so the call hands
  back the old \<open>pause_start_time_sec\<close>.
\<close>

lemma pause_keeps_pause_start: "pause_start_time_sec (pause now c) = pause_start_time_sec c"
  by (simp add: pause_def get_current_position_def Let_def split: option.splits)

lemma fresh_set_notes:
  "set_notes ns (new_controller (Inr example_player)) =
     \<lparr>fluidsynth_player = Some (all_notes_off_player (program_change 0 0 example_player)),
      notes' = ns, is_playing_internal = False, paused = False,
      current_playback_time_sec = 0, playback_start_real_time = 0,
      pause_start_time_sec = 0, tempo_bpm = 120, tempo_scale_factor = 1,
      stop_flag = False, is_playing_for_scheduler = False,
      note_scheduler = Some (new_scheduler ns 1)\<rparr>"
  by (simp add: set_notes_def new_controller_def stop_def ensure_scheduler_def
      INSTRUMENT_MAPPINGS_def example_player_def Let_def)

text \<open>
  Claim C4 fails on the code. A fresh controller gets one note and plays from
  wall-clock time 100; at 103 the position is 3 and \<open>pause\<close> is called; \<open>play\<close> at 110
  resumes in mode Playing at position 0, not 3.
\<close>

theorem pause_resume_jumps_back:
  "then_do (play 100 (set_notes [example_note] (new_controller (Inr example_player))))
     (\<lambda>c2. then_do (play 110 (pause 103 c2))
        (\<lambda>c4. Inr (mode_of c2, fst (get_current_position 103 c2),
                   mode_of c4, fst (get_current_position 110 c4))))
   = Inr (Playing, 3, Playing, 0)"
  by (simp add: fresh_set_notes play_def pause_def ensure_scheduler_def new_scheduler_def
      update_notes_def start_thread_def start_playback_thread_def reset_playback_position_def
      get_current_position_def py_truediv_def mode_of_def Let_def)

subsection \<open>Reading the position\<close>

text \<open>
  Claim C9, as the code has it. \<open>get_current_position\<close> returns
  \<open>(now - playback_start_real_time) * tempo_scale_factor\<close> while Playing, the frozen
  pause position while Paused and the stored position while Stopped. It changes
  nothing while Paused or Stopped; while Playing it stores the value it returns in
  \<open>current_playback_time_sec\<close> and changes nothing else.
\<close>

theorem get_current_position_by_mode:
  "get_current_position now c =
     (case mode_of c of
        Playing \<Rightarrow>
          ((now - playback_start_real_time c) * tempo_scale_factor c,
           c\<lparr>current_playback_time_sec :=
                (now - playback_start_real_time c) * tempo_scale_factor c\<rparr>)
      | Paused \<Rightarrow> (pause_start_time_sec c, c)
      | Stopped \<Rightarrow> (current_playback_time_sec c, c))"
  by (simp add: get_current_position_def mode_of_def Let_def)

text \<open>
  The claim as stated (a pure read) fails: three seconds into playback the call
  moves \<open>current_playback_time_sec\<close> from 0 to 3.
\<close>

theorem get_current_position_writes:
  "snd (get_current_position 103 example_playing) \<noteq> example_playing \<and>
   current_playback_time_sec example_playing = 0 \<and>
   current_playback_time_sec (snd (get_current_position 103 example_playing)) = 3"
  by (simp add: get_current_position_def example_playing_def Let_def)

subsection \<open>Cleanup\<close>

lemma cleanup_always_raises: "cleanup c = Inl AttributeError"
  by (simp add: cleanup_def getattr_controller_def controller_attributes_def)

text \<open>
  Claim C2 fails on the code: \<open>cleanup\<close> reads the attribute \<open>device_manager\<close>, which
  no controller has, so an \<open>AttributeError\<close> reaches the caller; here on a controller
  whose output sink failed to initialise.
\<close>

theorem cleanup_raises_without_sink:
  "cleanup (new_controller (Inl BackendError)) = Inl AttributeError"
  by (simp add: cleanup_def getattr_controller_def controller_attributes_def)

subsection \<open>Reachable states\<close>

text \<open>
  Every state reached from a new controller by public operations that return
  satisfies the invariant.
\<close>

lemma inv_apply_operation:
  "controller_inv c \<Longrightarrow> apply_operation x c = Inr c' \<Longrightarrow> controller_inv c'"
  by (cases x)
    (auto simp add: inv_set_notes inv_pause inv_stop inv_get_current_position
      cleanup_always_raises
      intro: inv_play inv_seek inv_set_tempo inv_toggle_playback inv_set_instrument)

lemma inv_run_operations:
  "controller_inv c \<Longrightarrow> run_operations xs c = Inr c' \<Longrightarrow> controller_inv c'"
proof (induction xs arbitrary: c)
  case Nil
  then show ?case by simp
next
  case (Cons x xs)
  then show ?case
    by (cases "apply_operation x c") (auto dest: inv_apply_operation)
qed

lemma inv_reached:
  "run_operations xs (new_controller made) = Inr c \<Longrightarrow> controller_inv c"
  using inv_new by (rule inv_run_operations)

section \<open>Properties of the scheduler loop\<close>

lemma note_trace_done: "note_trace n True False ps = []"
  by (induction ps) (simp_all add: Let_def)

lemma note_trace_no_hit:
  "\<forall>p\<in>set ps. \<not> (start_time n \<le> p \<and> p < end_time n) \<Longrightarrow> note_trace n False False ps = []"
  by (induction ps) (auto simp add: Let_def)

lemma note_trace_active:
  "sorted ps \<Longrightarrow> \<exists>p\<in>set ps. end_time n \<le> p \<Longrightarrow>
   note_trace n True True ps = [DNoteOff (channel n) (pitch n)]"
proof (induction ps)
  case Nil
  then show ?case by simp
next
  case (Cons p ps)
  show ?case
  proof (cases "end_time n \<le> p")
    case True
    then show ?thesis by (simp add: Let_def note_trace_done)
  next
    case False
    with Cons.prems have "\<exists>q\<in>set ps. end_time n \<le> q" "sorted ps"
      by auto
    with Cons.IH False show ?thesis by (simp add: Let_def)
  qed
qed

lemma note_trace_fresh:
  "sorted ps \<Longrightarrow> \<exists>p\<in>set ps. start_time n \<le> p \<and> p < end_time n \<Longrightarrow>
   \<exists>p\<in>set ps. end_time n \<le> p \<Longrightarrow>
   note_trace n False False ps =
     [DNoteOn (channel n) (pitch n) (velocity n), DNoteOff (channel n) (pitch n)]"
proof (induction ps)
  case Nil
  then show ?case by simp
next
  case (Cons p ps)
  from Cons.prems(1) have srt: "sorted ps" and le: "\<forall>q\<in>set ps. p \<le> q"
    by auto
  show ?case
  proof (cases "start_time n \<le> p \<and> p < end_time n")
    case True
    with Cons.prems(3) have "\<exists>q\<in>set ps. end_time n \<le> q"
      by auto
    with srt have "note_trace n True True ps = [DNoteOff (channel n) (pitch n)]"
      by (rule note_trace_active)
    with True show ?thesis by (simp add: Let_def)
  next
    case False
    with Cons.prems(2) obtain h where h: "h \<in> set ps" "start_time n \<le> h" "h < end_time n"
      by auto
    with le have "p < end_time n"
      by fastforce
    with Cons.prems(3) have b: "\<exists>q\<in>set ps. end_time n \<le> q"
      by auto
    from h have "\<exists>q\<in>set ps. start_time n \<le> q \<and> q < end_time n"
      by auto
    with Cons.IH srt b have "note_trace n False False ps =
        [DNoteOn (channel n) (pitch n) (velocity n), DNoteOff (channel n) (pitch n)]"
      by simp
    with False \<open>p < end_time n\<close> show ?thesis by (simp add: Let_def)
  qed
qed

lemma filter_index_map:
  assumes "\<And>j. fst (g j) = j"
  shows "filter (\<lambda>e. fst e = i) (map g (filter P [0..<n])) = (if i < n \<and> P i then [g i] else [])"
  by (induction n) (auto simp add: assms)

lemma poll_facts:
  assumes "poll p s = (evs, s')" and "i < length (sched_notes s)"
  shows "sched_notes s' = sched_notes s"
    and "thread_running s' = thread_running s"
    and "midi_output_target s' = midi_output_target s"
    and "i \<in> started s' \<longleftrightarrow>
           i \<in> started s \<or>
           (start_time (sched_notes s ! i) \<le> p \<and> p < end_time (sched_notes s ! i))"
    and "i \<in> active s' \<longleftrightarrow>
           (i \<in> active s \<or>
            (i \<notin> started s \<and> start_time (sched_notes s ! i) \<le> p \<and>
             p < end_time (sched_notes s ! i))) \<and>
           \<not> end_time (sched_notes s ! i) \<le> p"
  using assms by (auto simp add: poll_def due_on_def due_off_def Let_def)

lemma poll_events:
  assumes "poll p s = (evs, s')" and "i < length (sched_notes s)"
  shows "filter (\<lambda>e. fst e = i) evs =
     (if i \<notin> started s \<and> start_time (sched_notes s ! i) \<le> p \<and> p < end_time (sched_notes s ! i)
      then [on_event (sched_notes s) i] else []) @
     (if (i \<in> active s \<or>
          (i \<notin> started s \<and> start_time (sched_notes s ! i) \<le> p \<and>
           p < end_time (sched_notes s ! i))) \<and> end_time (sched_notes s ! i) \<le> p
      then [off_event (sched_notes s) i] else [])"
proof -
  have on: "\<And>j. fst (on_event (sched_notes s) j) = j"
    by (simp add: on_event_def)
  have off: "\<And>j. fst (off_event (sched_notes s) j) = j"
    by (simp add: off_event_def)
  from assms(1) have "evs = map (on_event (sched_notes s)) (due_on p s) @
      map (off_event (sched_notes s))
        (due_off p (s\<lparr>started := started s \<union> set (due_on p s),
                       active := active s \<union> set (due_on p s)\<rparr>))"
    by (auto simp add: poll_def Let_def)
  then show ?thesis
    using assms(2)
    by (simp add: due_on_def due_off_def filter_index_map [OF on] filter_index_map [OF off])
qed

lemma poll_all_note:
  "i < length (sched_notes s) \<Longrightarrow>
   filter (\<lambda>e. fst e = i) (poll_all ps s) =
     map (Pair i) (note_trace (sched_notes s ! i) (i \<in> started s) (i \<in> active s) ps)"
proof (induction ps arbitrary: s)
  case Nil
  then show ?case by simp
next
  case (Cons p ps)
  obtain evs s' where ps: "poll p s = (evs, s')"
    by (cases "poll p s")
  note f = poll_facts [OF ps Cons.prems]
  from Cons.prems f(1) have "i < length (sched_notes s')"
    by simp
  from Cons.IH [OF this] show ?case
    by (auto simp add: ps f poll_events [OF ps Cons.prems] Let_def on_event_def off_event_def)
qed

lemma scheduler_loop_playing:
  "note_scheduler c = Some s \<Longrightarrow> \<not> stop_flag c \<Longrightarrow> thread_running s \<Longrightarrow>
   is_playing_for_scheduler c \<Longrightarrow> is_playing_internal c \<Longrightarrow> \<not> paused c \<Longrightarrow>
   fst (scheduler_loop ts c) =
     poll_all (map (\<lambda>t. (t - playback_start_real_time c) * tempo_scale_factor c) ts) s"
proof (induction ts arbitrary: c s)
  case Nil
  then show ?case by simp
next
  case (Cons t ts)
  let ?pos = "(t - playback_start_real_time c) * tempo_scale_factor c"
  let ?c1 = "c\<lparr>current_playback_time_sec := ?pos\<rparr>"
  obtain evs s' where ps: "poll ?pos s = (evs, s')"
    by (cases "poll ?pos s")
  have g: "get_current_position t c = (?pos, ?c1)"
    using Cons.prems by (simp add: get_current_position_def Let_def)
  have tr: "thread_running s'"
    using ps Cons.prems(3) by (auto simp add: poll_def Let_def)
  have "fst (scheduler_loop ts (?c1\<lparr>note_scheduler := Some s'\<rparr>)) =
      poll_all (map (\<lambda>t. (t - playback_start_real_time c) * tempo_scale_factor c) ts) s'"
    using Cons.IH [of "?c1\<lparr>note_scheduler := Some s'\<rparr>" s'] Cons.prems tr by simp
  then show ?case
    using Cons.prems by (simp add: g ps case_prod_beta)
qed

lemma set_notes_state:
  assumes "controller_inv c0" and "fluidsynth_player c0 = Some p"
  shows "\<exists>p' s. fluidsynth_player (set_notes ns c0) = Some p' \<and>
     note_scheduler (set_notes ns c0) = Some s \<and> midi_output_target s = obj_id p' \<and>
     sched_notes s = ns \<and> started s = {} \<and> active s = {} \<and>
     notes' (set_notes ns c0) = ns \<and> \<not> is_playing_internal (set_notes ns c0) \<and>
     \<not> paused (set_notes ns c0) \<and> current_playback_time_sec (set_notes ns c0) = 0 \<and>
     tempo_scale_factor (set_notes ns c0) = tempo_scale_factor c0"
  using assms
  by (auto simp add: controller_inv_def set_notes_def stop_def stop_playback_thread_def
      ensure_scheduler_def new_scheduler_def update_notes_def reset_playback_position_def
      Let_def split: option.splits)

lemma play_from_stopped:
  assumes "fluidsynth_player c1 = Some p'" and "note_scheduler c1 = Some s"
    and "midi_output_target s = obj_id p'" and "notes' c1 \<noteq> []"
    and "\<not> is_playing_internal c1" and "\<not> paused c1"
    and "current_playback_time_sec c1 = 0" and "tempo_scale_factor c1 \<noteq> 0"
  shows "\<exists>c s'. play t0 c1 = Inr c \<and> note_scheduler c = Some s' \<and>
     sched_notes s' = notes' c1 \<and> started s' = {} \<and> active s' = {} \<and> thread_running s' \<and>
     \<not> stop_flag c \<and> is_playing_for_scheduler c \<and> is_playing_internal c \<and> \<not> paused c \<and>
     playback_start_real_time c = t0 \<and> tempo_scale_factor c = tempo_scale_factor c1"
  using assms
  by (simp add: play_def ensure_scheduler_def update_notes_def py_truediv_def start_thread_def
      start_playback_thread_def reset_playback_position_def Let_def)

subsection \<open>A full run\<close>

text \<open>
  Claim C1, as the polling loop allows it. A controller with an available sink and a
  positive tempo scale factor gets the note list \<open>ns\<close> and \<open>play\<close> at wall-clock time
  \<open>t0\<close>; \<open>play\<close> succeeds and starts at position 0. The loop wakes at the instants
  \<open>ts\<close>, in order. A note whose window \<open>[start_time, end_time)\<close> contains the position
  of at least one wake, and whose \<open>end_time\<close> is reached by some wake, gets exactly one
  note-on and then exactly one note-off, with its own channel and pitch, and nothing
  else. A note whose window contains the position of no wake gets nothing at all.
\<close>

theorem full_run_one_on_then_off:
  assumes inv: "controller_inv c0"
    and pos: "0 < tempo_scale_factor c0"
    and sink: "fluidsynth_player c0 \<noteq> None"
    and i: "i < length ns"
    and srt: "sorted ts"
  shows "\<exists>c. play t0 (set_notes ns c0) = Inr c \<and> mode_of c = Playing \<and>
     fst (get_current_position t0 c) = 0 \<and>
     ((\<exists>t\<in>set ts. start_time (ns ! i) \<le> (t - t0) * tempo_scale_factor c0 \<and>
                  (t - t0) * tempo_scale_factor c0 < end_time (ns ! i)) \<and>
      (\<exists>t\<in>set ts. end_time (ns ! i) \<le> (t - t0) * tempo_scale_factor c0) \<longrightarrow>
      filter (\<lambda>e. fst e = i) (fst (scheduler_loop ts c)) =
        [(i, DNoteOn (channel (ns ! i)) (pitch (ns ! i)) (velocity (ns ! i))),
         (i, DNoteOff (channel (ns ! i)) (pitch (ns ! i)))]) \<and>
     ((\<forall>t\<in>set ts. \<not> (start_time (ns ! i) \<le> (t - t0) * tempo_scale_factor c0 \<and>
                       (t - t0) * tempo_scale_factor c0 < end_time (ns ! i))) \<longrightarrow>
      filter (\<lambda>e. fst e = i) (fst (scheduler_loop ts c)) = [])"
proof -
  let ?k = "tempo_scale_factor c0"
  let ?f = "\<lambda>t. (t - t0) * ?k"
  from sink obtain p where p: "fluidsynth_player c0 = Some p"
    by auto
  from i have ne: "ns \<noteq> []"
    by auto
  from set_notes_state [OF inv p, of ns] obtain p' s where
    s: "fluidsynth_player (set_notes ns c0) = Some p'" "note_scheduler (set_notes ns c0) = Some s"
       "midi_output_target s = obj_id p'" "notes' (set_notes ns c0) = ns"
       "\<not> is_playing_internal (set_notes ns c0)" "\<not> paused (set_notes ns c0)"
       "current_playback_time_sec (set_notes ns c0) = 0"
       "tempo_scale_factor (set_notes ns c0) = ?k"
    by blast
  from s(4) ne have ne': "notes' (set_notes ns c0) \<noteq> []"
    by simp
  from s(8) pos have k': "tempo_scale_factor (set_notes ns c0) \<noteq> 0"
    by simp
  from play_from_stopped [OF s(1) s(2) s(3) ne' s(5) s(6) s(7) k', of t0] obtain c s' where
    c: "play t0 (set_notes ns c0) = Inr c" "note_scheduler c = Some s'" "sched_notes s' = ns"
       "started s' = {}" "active s' = {}" "thread_running s'" "\<not> stop_flag c"
       "is_playing_for_scheduler c" "is_playing_internal c" "\<not> paused c"
       "playback_start_real_time c = t0" "tempo_scale_factor c = ?k"
    using s(4) s(8) by auto
  have m: "mode_of c = Playing"
    using c(9) c(10) by (simp add: mode_of_def)
  have z: "fst (get_current_position t0 c) = 0"
    using c(9) c(10) c(11) by (simp add: get_current_position_def Let_def)
  have loop: "fst (scheduler_loop ts c) = poll_all (map ?f ts) s'"
    using scheduler_loop_playing [OF c(2) c(7) c(6) c(8) c(9) c(10), of ts] c(11) c(12)
    by simp
  from i c(3) have i': "i < length (sched_notes s')"
    by simp
  have tr: "filter (\<lambda>e. fst e = i) (fst (scheduler_loop ts c)) =
      map (Pair i) (note_trace (ns ! i) False False (map ?f ts))"
    using poll_all_note [OF i', of "map ?f ts"] c(3) c(4) c(5) loop by simp
  have srt': "sorted (map ?f ts)"
    using srt pos by (induction ts) (auto simp add: mult_right_mono)
  have sounded: "filter (\<lambda>e. fst e = i) (fst (scheduler_loop ts c)) =
        [(i, DNoteOn (channel (ns ! i)) (pitch (ns ! i)) (velocity (ns ! i))),
         (i, DNoteOff (channel (ns ! i)) (pitch (ns ! i)))]"
    if hit: "\<exists>t\<in>set ts. start_time (ns ! i) \<le> ?f t \<and> ?f t < end_time (ns ! i)"
      and beyond: "\<exists>t\<in>set ts. end_time (ns ! i) \<le> ?f t"
  proof -
    from hit have hit': "\<exists>q\<in>set (map ?f ts). start_time (ns ! i) \<le> q \<and> q < end_time (ns ! i)"
      by auto
    from beyond have beyond': "\<exists>q\<in>set (map ?f ts). end_time (ns ! i) \<le> q"
      by auto
    have "note_trace (ns ! i) False False (map ?f ts) =
        [DNoteOn (channel (ns ! i)) (pitch (ns ! i)) (velocity (ns ! i)),
         DNoteOff (channel (ns ! i)) (pitch (ns ! i))]"
      using srt' hit' beyond' by (rule note_trace_fresh)
    with tr show ?thesis by simp
  qed
  have silent: "filter (\<lambda>e. fst e = i) (fst (scheduler_loop ts c)) = []"
    if miss: "\<forall>t\<in>set ts. \<not> (start_time (ns ! i) \<le> ?f t \<and> ?f t < end_time (ns ! i))"
  proof -
    from miss have "\<forall>q\<in>set (map ?f ts). \<not> (start_time (ns ! i) \<le> q \<and> q < end_time (ns ! i))"
      by auto
    then have "note_trace (ns ! i) False False (map ?f ts) = []"
      by (rule note_trace_no_hit)
    with tr show ?thesis by simp
  qed
  from c(1) m z sounded silent show ?thesis
    by blast
qed

theorem full_run_one_on_then_off_witness:
  "\<exists>c. play 100 (set_notes [example_note, short_note] (new_controller (Inr example_player)))
          = Inr c \<and>
     mode_of c = Playing \<and>
     filter (\<lambda>e. fst e = 0) (fst (scheduler_loop [100, 100 + 1 / 2, 101] c)) =
       [(0, DNoteOn 0 60 100), (0, DNoteOff 0 60)] \<and>
     filter (\<lambda>e. fst e = 1) (fst (scheduler_loop [100, 100 + 1 / 2, 101] c)) = []"
proof -
  let ?c0 = "new_controller (Inr example_player)"
  let ?ns = "[example_note, short_note]"
  have k: "tempo_scale_factor ?c0 = 1"
    by (simp add: new_controller_def)
  have pos: "0 < tempo_scale_factor ?c0"
    by (simp add: k)
  have sink: "fluidsynth_player ?c0 \<noteq> None"
    by (simp add: new_controller_def example_player_def)
  have i0: "(0::nat) < length ?ns" and i1: "(1::nat) < length ?ns"
    by simp_all
  have srt: "sorted [100, 100 + 1 / 2, 101 :: real]"
    by simp
  from full_run_one_on_then_off [OF inv_new pos sink i0 srt, of 100]
  obtain c where c: "play 100 (set_notes ?ns ?c0) = Inr c" "mode_of c = Playing"
    and on_off: "filter (\<lambda>e. fst e = 0) (fst (scheduler_loop [100, 100 + 1 / 2, 101] c)) =
       [(0, DNoteOn 0 60 100), (0, DNoteOff 0 60)]"
    by (auto simp add: k example_note_def)
  from full_run_one_on_then_off [OF inv_new pos sink i1 srt, of 100] c(1)
  have "filter (\<lambda>e. fst e = 1) (fst (scheduler_loop [100, 100 + 1 / 2, 101] c)) = []"
    by (auto simp add: k short_note_def)
  with c on_off show ?thesis
    by blast
qed

text \<open>
  The claim for every note list fails: with wakes every ten milliseconds, a run from
  position 0 to 0.02 passes over a note sounding from 0.012 to 0.018 without
  dispatching anything.
\<close>

theorem short_note_never_sounds:
  "then_do (play 100 (set_notes [short_note] (new_controller (Inr example_player))))
     (\<lambda>c. Inr (mode_of c, fst (get_current_position 100 c),
                fst (get_current_position (100 + 2 / 100) c),
                fst (scheduler_loop [100, 100 + 1 / 100, 100 + 2 / 100] c)))
   = Inr (Playing, 0, 2 / 100, [])"
  by (simp add: fresh_set_notes play_def ensure_scheduler_def new_scheduler_def
      update_notes_def start_thread_def start_playback_thread_def reset_playback_position_def
      get_current_position_def py_truediv_def mode_of_def poll_def due_on_def due_off_def
      short_note_def Let_def)

end
